theory Spec2Isabelle
  imports Main
begin

section \<open>Python values, dictionaries and exceptions\<close>

text \<open>
  The records handled by \<open>Finder\<close> are Python dictionaries from field names to values.
  CSV rows and feature attributes carry strings; the driving information carries a
  numeric distance value next to its texts. A dictionary is a finite map; key order
  plays no role in any operation embedded here.
\<close>

datatype pyval = Str string | Num int

type_synonym dict = "string \<rightharpoonup> pyval"

text \<open>
  The exceptions that the embedded code can raise. \<open>Unmodelled\<close> is not a Python exception:
  \<open>str.format\<close> returns it on a replacement field that uses attribute access, indexing,
  a conversion or a format specification, which this development does not interpret.
\<close>

datatype error =
    KeyError string
  | ValueError
  | TypeError
  | IndexError
  | NameError string
  | Unmodelled

text \<open>Sequencing of two steps: an exception raised by the first step skips the second.\<close>

definition and_then :: "error + 'a \<Rightarrow> ('a \<Rightarrow> error + 'b) \<Rightarrow> error + 'b" where
  "and_then m f = (case m of Inl e \<Rightarrow> Inl e | Inr x \<Rightarrow> f x)"

subsection \<open>Comparison of values\<close>

text \<open>Python compares strings lexicographically by code point.\<close>

fun str_lt :: "string \<Rightarrow> string \<Rightarrow> bool" where
  "str_lt [] [] = False"
| "str_lt [] (b # bs) = True"
| "str_lt (a # as) [] = False"
| "str_lt (a # as) (b # bs) =
     (if a = b then str_lt as bs else (of_char a :: nat) < of_char b)"

text \<open>\<open>v < w\<close>: defined between two numbers and between two strings, \<open>TypeError\<close> otherwise.\<close>

fun py_lt :: "pyval \<Rightarrow> pyval \<Rightarrow> error + bool" where
  "py_lt (Num a) (Num b) = Inr (a < b)"
| "py_lt (Str a) (Str b) = Inr (str_lt a b)"
| "py_lt (Num a) (Str b) = Inl TypeError"
| "py_lt (Str a) (Num b) = Inl TypeError"

subsection \<open>\<open>str(v)\<close>\<close>

fun show_nat :: "nat \<Rightarrow> string" where
  "show_nat n =
     (if n < 10 then [''0123456789'' ! n]
      else show_nat (n div 10) @ [''0123456789'' ! (n mod 10)])"

declare show_nat.simps [simp del]

definition py_str :: "pyval \<Rightarrow> string" where
  "py_str v =
     (case v of
        Str s \<Rightarrow> s
      | Num n \<Rightarrow> (if n < 0 then CHR ''-'' # show_nat (nat (- n)) else show_nat (nat n)))"

section \<open>\<open>str.format\<close>\<close>

text \<open>
  \<open>template.format(*args, **kwargs)\<close> for templates whose replacement fields are plain:
  \<open>{}\<close>, \<open>{0}\<close>, \<open>{name}\<close>, with \<open>{{\<close> and \<open>}}\<close> for literal braces. The template is read
  left to right and every field is looked up when its closing brace is reached, so the
  first fault in reading order is the one raised.
\<close>

text \<open>Automatic versus manual numbering of positional fields (\<open>{}\<close> versus \<open>{0}\<close>).\<close>

datatype numbering = ANS_INIT | ANS_AUTO nat | ANS_MANUAL

definition is_digit :: "char \<Rightarrow> bool" where
  "is_digit c = (48 \<le> (of_char c :: nat) \<and> (of_char c :: nat) \<le> 57)"

fun digits_value :: "nat \<Rightarrow> string \<Rightarrow> nat option" where
  "digits_value acc [] = Some acc"
| "digits_value acc (c # cs) =
     (if is_digit c then digits_value (acc * 10 + (of_char c - 48)) cs else None)"

text \<open>
  The index a field name denotes: \<open>None\<close> for the empty name and for a name with a
  character that is no digit; \<open>ValueError\<close> when the digits exceed the largest index
  (\<open>PY_SSIZE_T_MAX\<close>, here of a 64-bit build).
\<close>

definition get_integer :: "string \<Rightarrow> error + nat option" where
  "get_integer s =
     (if s = [] then Inr None
      else (case digits_value 0 s of
              None \<Rightarrow> Inr None
            | Some n \<Rightarrow> if n > 9223372036854775807 then Inl ValueError else Inr (Some n)))"

definition positional :: "pyval list \<Rightarrow> nat \<Rightarrow> numbering \<Rightarrow> error + pyval \<times> numbering" where
  "positional args i st = (if i < length args then Inr (args ! i, st) else Inl IndexError)"

definition get_field ::
  "pyval list \<Rightarrow> dict \<Rightarrow> numbering \<Rightarrow> string \<Rightarrow> error + pyval \<times> numbering" where
  "get_field args kwargs st name =
     (case get_integer name of
        Inl e \<Rightarrow> Inl e
      | Inr idx \<Rightarrow>
          if name = [] then
            (case st of
               ANS_MANUAL \<Rightarrow> Inl ValueError
             | ANS_INIT \<Rightarrow> positional args 0 (ANS_AUTO 1)
             | ANS_AUTO n \<Rightarrow> positional args n (ANS_AUTO (Suc n)))
          else
            (case idx of
               Some i \<Rightarrow>
                 (case st of
                    ANS_AUTO n \<Rightarrow> Inl ValueError
                  | ANS_INIT \<Rightarrow> positional args i ANS_MANUAL
                  | ANS_MANUAL \<Rightarrow> positional args i ANS_MANUAL)
             | None \<Rightarrow>
                 (case kwargs name of
                    None \<Rightarrow> Inl (KeyError name)
                  | Some v \<Rightarrow> Inr (v, st))))"

text \<open>The scanner is either in literal text or inside a replacement field.\<close>

datatype scan = Text | FieldName string

definition emit :: "string \<Rightarrow> error + string \<Rightarrow> error + string" where
  "emit s r = (case r of Inl e \<Rightarrow> Inl e | Inr t \<Rightarrow> Inr (s @ t))"

fun vformat :: "pyval list \<Rightarrow> dict \<Rightarrow> numbering \<Rightarrow> scan \<Rightarrow> string \<Rightarrow> error + string" where
  "vformat args kwargs st Text [] = Inr []"
| "vformat args kwargs st Text (c # cs) =
     (if c = CHR ''{'' then
        (case cs of
           [] \<Rightarrow> Inl ValueError
         | d # ds \<Rightarrow>
             if d = CHR ''{'' then emit ''{'' (vformat args kwargs st Text ds)
             else vformat args kwargs st (FieldName []) cs)
      else if c = CHR ''}'' then
        (case cs of
           [] \<Rightarrow> Inl ValueError
         | d # ds \<Rightarrow>
             if d = CHR ''}'' then emit ''}'' (vformat args kwargs st Text ds)
             else Inl ValueError)
      else emit [c] (vformat args kwargs st Text cs))"
| "vformat args kwargs st (FieldName name) [] = Inl ValueError"
| "vformat args kwargs st (FieldName name) (c # cs) =
     (if c = CHR ''}'' then
        (case get_field args kwargs st name of
           Inl e \<Rightarrow> Inl e
         | Inr (v, st') \<Rightarrow> emit (py_str v) (vformat args kwargs st' Text cs))
      else if c = CHR ''{'' then Inl ValueError
      else if c = CHR ''.'' \<or> c = CHR ''['' \<or> c = CHR ''!'' \<or> c = CHR '':'' then Inl Unmodelled
      else vformat args kwargs st (FieldName (name @ [c])) cs)"

definition str_format :: "string \<Rightarrow> pyval list \<Rightarrow> dict \<Rightarrow> error + string" where
  "str_format template args kwargs = vformat args kwargs ANS_INIT Text template"

section \<open>\<open>Finder\<close>\<close>

text \<open>
  The attributes of a \<open>Finder\<close> object, as \<open>__init__\<close> sets them.

  \<open>field_formatter\<close> is the caller's preparation function; \<open>__init__\<close> documents it as a
  "function that will access and modify fields in the returned record". A Python function
  receives the record object itself and changes it in place, and it returns a value of its own. Its
  model maps the argument (\<open>None\<close> when the argument is Python's \<open>None\<close>) either to an exception
  or to a pair: the contents of the argument dictionary when the call returns, and the
  returned value (\<open>None\<close> for Python's \<open>None\<close>). The first component has no meaning when the
  argument is \<open>None\<close>.
\<close>

record finder =
  resource_url :: string
  address_key :: string
  output_speech :: string
  field_formatter :: "dict option \<Rightarrow> error + dict \<times> dict option"
  origin_address :: string

text \<open>
  The functions of \<open>csv_utils\<close> and \<open>g_maps_utils\<close> that \<open>Finder\<close> calls, and the constant
  \<open>g_maps_utils.DRIVING_DISTANCE_VALUE_KEY\<close>. Their modules are not part of the sources at
  hand, so they are parameters:
  \<^item> \<open>csv_add_city_and_state_to_records records address_key city state\<close>;
  \<^item> \<open>get_driving_info origin address_key destinations\<close> (\<open>g_maps_utils._get_driving_info\<close>).
\<close>

record collaborators =
  csv_add_city_and_state_to_records ::
    "dict list \<Rightarrow> string \<Rightarrow> string \<Rightarrow> string \<Rightarrow> error + dict list"
  get_driving_info :: "string \<Rightarrow> string \<Rightarrow> pyval list \<Rightarrow> error + dict list"
  DRIVING_DISTANCE_VALUE_KEY :: string

definition CITY :: string where
  "CITY = ''Boston''"

definition STATE :: string where
  "STATE = ''MA''"

definition ERROR_MESSAGE :: string where
  "ERROR_MESSAGE = ''Uh oh. Something went wrong!''"

definition get_output_speech :: "finder \<Rightarrow> string" where
  "get_output_speech self = output_speech self"

text \<open>
  \<open>set_output_speech\<close>: \<open>Inr\<close> carries the object after the assignment; \<open>Inl\<close> is an exception
  that leaves the method, with the object as it was.
  \<^item> \<open>**format_keys\<close> needs a mapping: \<open>None\<close> raises \<open>TypeError\<close> before \<open>format\<close> runs.
  \<^item> Only \<open>KeyError\<close> is caught. The handler evaluates the bare name \<open>ERROR_MESSAGE\<close>. The
    name is an attribute of the class \<open>Finder\<close>, and a class body is no enclosing scope of
    its methods; the module defines no global of that name (it binds \<open>csv\<close>, \<open>requests\<close>,
    four module aliases and \<open>Finder\<close>), and it is no builtin. So the handler raises
    \<open>NameError\<close> before it assigns.
\<close>

definition set_output_speech :: "finder \<Rightarrow> dict option \<Rightarrow> error + finder" where
  "set_output_speech self format_keys =
     (case format_keys of
        None \<Rightarrow> Inl TypeError
      | Some keys \<Rightarrow>
          (case str_format (output_speech self) [] keys of
             Inr s \<Rightarrow> Inr (self\<lparr>output_speech := s\<rparr>)
           | Inl (KeyError k) \<Rightarrow> Inl (NameError ''ERROR_MESSAGE'')
           | Inl e \<Rightarrow> Inl e))"

text \<open>\<open>[record[self.address_key] for record in records]\<close>: a missing key raises.\<close>

fun get_all_destinations :: "finder \<Rightarrow> dict list \<Rightarrow> error + pyval list" where
  "get_all_destinations self [] = Inr []"
| "get_all_destinations self (record # records) =
     (case record (address_key self) of
        None \<Rightarrow> Inl (KeyError (address_key self))
      | Some v \<Rightarrow>
          (case get_all_destinations self records of
             Inl e \<Rightarrow> Inl e
           | Inr vs \<Rightarrow> Inr (v # vs)))"

definition get_driving_times_to_destinations ::
  "collaborators \<Rightarrow> finder \<Rightarrow> pyval list \<Rightarrow> error + dict list" where
  "get_driving_times_to_destinations env self destinations =
     get_driving_info env (origin_address self) (address_key self) destinations"

text \<open>
  \<open>min(iterable, key=...)\<close>: the key of every item is computed when the item is reached;
  a later item replaces the current one only when its key is strictly smaller. The empty
  sequence raises \<open>ValueError\<close>.
\<close>

fun min_loop :: "string \<Rightarrow> dict \<Rightarrow> pyval \<Rightarrow> dict list \<Rightarrow> error + dict" where
  "min_loop k minitem minval [] = Inr minitem"
| "min_loop k minitem minval (item # items) =
     (case item k of
        None \<Rightarrow> Inl (KeyError k)
      | Some val \<Rightarrow>
          (case py_lt val minval of
             Inl e \<Rightarrow> Inl e
           | Inr lt \<Rightarrow>
               if lt then min_loop k item val items else min_loop k minitem minval items))"

definition get_closest_destination :: "collaborators \<Rightarrow> dict list \<Rightarrow> error + dict" where
  "get_closest_destination env destination_dictionaries =
     (case destination_dictionaries of
        [] \<Rightarrow> Inl ValueError
      | item # items \<Rightarrow>
          (case item (DRIVING_DISTANCE_VALUE_KEY env) of
             None \<Rightarrow> Inl (KeyError (DRIVING_DISTANCE_VALUE_KEY env))
           | Some val \<Rightarrow> min_loop (DRIVING_DISTANCE_VALUE_KEY env) item val items))"

text \<open>
  \<open>get_closest_record_with_driving_info\<close>: the loop returns at the first record whose
  address equals the driving information's; \<open>{**record, **driving_info}\<close> is
  \<open>record ++ driving_info\<close>. When the loop ends without a match the function falls off
  its end and returns Python's \<open>None\<close>, here \<open>Inr None\<close>. Both subscriptions raise
  \<open>KeyError\<close> on a missing key, the driving information's first.
\<close>

fun get_closest_record_with_driving_info ::
  "finder \<Rightarrow> dict \<Rightarrow> dict list \<Rightarrow> error + dict option" where
  "get_closest_record_with_driving_info self driving_info [] = Inr None"
| "get_closest_record_with_driving_info self driving_info (record # records) =
     (case driving_info (address_key self) of
        None \<Rightarrow> Inl (KeyError (address_key self))
      | Some a \<Rightarrow>
          (case record (address_key self) of
             None \<Rightarrow> Inl (KeyError (address_key self))
           | Some b \<Rightarrow>
               if a = b then Inr (Some (record ++ driving_info))
               else get_closest_record_with_driving_info self driving_info records))"

definition add_city_and_state_to_records ::
  "collaborators \<Rightarrow> finder \<Rightarrow> dict list \<Rightarrow> error + dict list" where
  "add_city_and_state_to_records env self records =
     csv_add_city_and_state_to_records env records (address_key self) CITY STATE"

text \<open>
  \<open>_start\<close>. The value returned by the preparation function is bound to
  \<open>formatted_record\<close> and not used again; \<open>set_output_speech\<close> receives \<open>closest_record\<close>,
  the object the preparation function was given, in the state that call left it in.
\<close>

definition Finder_start :: "collaborators \<Rightarrow> finder \<Rightarrow> dict list \<Rightarrow> error + finder" where
  "Finder_start env self records0 =
     and_then (add_city_and_state_to_records env self records0) (\<lambda>records.
     and_then (get_all_destinations self records) (\<lambda>destinations.
     and_then (get_driving_times_to_destinations env self destinations) (\<lambda>driving_times.
     and_then (get_closest_destination env driving_times) (\<lambda>closest_dest.
     and_then (get_closest_record_with_driving_info self closest_dest records) (\<lambda>closest_record.
     and_then (field_formatter self closest_record) (\<lambda>(after_call, formatted_record).
       set_output_speech self (map_option (\<lambda>before_call. after_call) closest_record)))))))"

section \<open>\<open>get_closest_record_with_driving_info\<close> on objects\<close>

text \<open>
  Whether the call changes its arguments is a question about objects, not values. Here
  dictionaries live in a store: \<open>cells\<close> gives the contents at each address and the
  addresses below \<open>next_free\<close> are the allocated ones. A dictionary display allocates.
\<close>

record store =
  cells :: "nat \<Rightarrow> dict"
  next_free :: nat

definition alloc :: "store \<Rightarrow> dict \<Rightarrow> nat \<times> store" where
  "alloc h d = (next_free h, h\<lparr>cells := (cells h)(next_free h := d), next_free := Suc (next_free h)\<rparr>)"

text \<open>
  The same loop over addresses: \<open>driving_info\<close> and the elements of \<open>records\<close> are
  addresses, the result is the address of the new dictionary (or \<open>None\<close>) with the store
  after the call.
\<close>

fun get_closest_record_with_driving_info_obj ::
  "finder \<Rightarrow> store \<Rightarrow> nat \<Rightarrow> nat list \<Rightarrow> (error + nat option) \<times> store" where
  "get_closest_record_with_driving_info_obj self h driving_info [] = (Inr None, h)"
| "get_closest_record_with_driving_info_obj self h driving_info (record # records) =
     (case cells h driving_info (address_key self) of
        None \<Rightarrow> (Inl (KeyError (address_key self)), h)
      | Some a \<Rightarrow>
          (case cells h record (address_key self) of
             None \<Rightarrow> (Inl (KeyError (address_key self)), h)
           | Some b \<Rightarrow>
               if a = b then
                 (case alloc h (cells h record ++ cells h driving_info) of
                    (p, h') \<Rightarrow> (Inr (Some p), h'))
               else get_closest_record_with_driving_info_obj self h driving_info records))"

section \<open>The voting intent\<close>

text \<open>
  Modelled from the spec: the request and response data models
  (\<open>MyCityRequestDataModel\<close>, \<open>MyCityResponseDataModel\<close>), whose classes are not part of the
  sources at hand. The request exposes a session-scoped key/value store holding the
  origin address as text; the response has an output speech, an optional reprompt text,
  a card title and a session-termination flag. \<open>None\<close> is Python's \<open>None\<close>.
\<close>

record request =
  session_attributes :: "string \<rightharpoonup> string"

record response =
  response_output_speech :: "string option"
  reprompt_text :: "string option"
  card_title :: "string option"
  should_end_session :: "bool option"

text \<open>
  What \<open>get_polling_location\<close> takes from other modules, as parameters: the constants
  \<open>intent_constants.CURRENT_ADDRESS_KEY\<close> and \<open>speech_constants.LOCATION_SPEECH\<close>, the state of
  a freshly constructed response, and the functions of \<open>arcgis_utils\<close> and \<open>vote_utils\<close>.
\<close>

record ('c, 't, 'w) voting_collaborators =
  CURRENT_ADDRESS_KEY :: string
  LOCATION_SPEECH :: string
  MyCityResponseDataModel :: response
  geocode_address_candidates :: "string \<Rightarrow> error + 'c"
  select_top_address_candidate :: "'c \<Rightarrow> error + 't"
  get_ward_precinct_info :: "'t \<Rightarrow> error + 'w"
  vote_utils_get_polling_location :: "'w \<Rightarrow> error + dict"

definition CARD_TITLE :: string where
  "CARD_TITLE = ''Voting Intent''"

text \<open>\<open>d[k]\<close> on a dictionary.\<close>

definition subscript :: "dict \<Rightarrow> string \<Rightarrow> error + pyval" where
  "subscript d k = (case d k of None \<Rightarrow> Inl (KeyError k) | Some v \<Rightarrow> Inr v)"

text \<open>
  \<open>get_polling_location\<close>: the returned response, or the exception that left the function.
  The geocoder is a parameter, so the address it is sent shows in how the result depends on
  it. The debug log line is not modelled.
\<close>

definition get_polling_location ::
  "('c, 't, 'w) voting_collaborators \<Rightarrow> request \<Rightarrow> error + response" where
  "get_polling_location env mycity_request =
     (case session_attributes mycity_request (CURRENT_ADDRESS_KEY env) of
        None \<Rightarrow> Inl (KeyError (CURRENT_ADDRESS_KEY env))
      | Some stored \<Rightarrow>
          (let current_address = stored @ '', Boston, MA'' in
            and_then (geocode_address_candidates env current_address) (\<lambda>candidates.
            and_then (select_top_address_candidate env candidates) (\<lambda>top_candidate.
            and_then (get_ward_precinct_info env top_candidate) (\<lambda>ward_precinct.
            and_then (vote_utils_get_polling_location env ward_precinct) (\<lambda>poll_location.
            and_then (subscript poll_location ''Location Name'') (\<lambda>location_name.
            and_then (subscript poll_location ''Location Address'') (\<lambda>location_address.
            and_then (str_format (LOCATION_SPEECH env) [location_name, location_address] Map.empty)
              (\<lambda>speech.
                 Inr ((MyCityResponseDataModel env)
                        \<lparr>response_output_speech := Some speech,
                         reprompt_text := None,
                         reprompt_text := Some CARD_TITLE,
                         should_end_session := Some True\<rparr>))))))))))"

section \<open>Example inputs\<close>

text \<open>
  A finder for polling locations keyed by \<open>Address\<close>, and collaborators that leave the
  records as they are and answer every distance query with the given driving information.
\<close>

abbreviation finder_ex :: "string \<Rightarrow> (dict option \<Rightarrow> error + dict \<times> dict option) \<Rightarrow> finder" where
  "finder_ex template prep \<equiv>
     \<lparr>resource_url = ''polling_locations.csv'', address_key = ''Address'',
      output_speech = template, field_formatter = prep,
      origin_address = ''10 Main St, Boston, MA''\<rparr>"

abbreviation collaborators_ex :: "dict list \<Rightarrow> collaborators" where
  "collaborators_ex driving_infos \<equiv>
     \<lparr>csv_add_city_and_state_to_records = (\<lambda>records key city state. Inr records),
      get_driving_info = (\<lambda>origin key destinations. Inr driving_infos),
      DRIVING_DISTANCE_VALUE_KEY = ''Driving distance''\<rparr>"

text \<open>
  A store holding one driving information (address 0) and two records (addresses 1, 2).
\<close>

abbreviation store_ex :: store where
  "store_ex \<equiv>
     \<lparr>cells = (\<lambda>a. Map.empty)
        (0 := [''Address'' \<mapsto> Str ''20 Main St'', ''Driving distance'' \<mapsto> Num 644],
         1 := [''Address'' \<mapsto> Str ''5 Main St'', ''Name'' \<mapsto> Str ''Library''],
         2 := [''Address'' \<mapsto> Str ''20 Main St'', ''Name'' \<mapsto> Str ''City Hall'']),
      next_free = 3\<rparr>"

text \<open>
  Collaborators of the voting intent that answer every query: the geocoder returns the
  address it was sent, and the polling location is City Hall.
\<close>

abbreviation voting_ex :: "(string, string, string) voting_collaborators" where
  "voting_ex \<equiv>
     \<lparr>CURRENT_ADDRESS_KEY = ''currentAddress'',
      LOCATION_SPEECH = ''Your polling location is {} at {}.'',
      MyCityResponseDataModel =
        \<lparr>response_output_speech = None, reprompt_text = None, card_title = None,
         should_end_session = None\<rparr>,
      geocode_address_candidates = (\<lambda>address. Inr address),
      select_top_address_candidate = (\<lambda>candidates. Inr candidates),
      get_ward_precinct_info = (\<lambda>candidate. Inr ''0301''),
      vote_utils_get_polling_location =
        (\<lambda>ward_precinct. Inr [''Location Name'' \<mapsto> Str ''City Hall'',
                               ''Location Address'' \<mapsto> Str ''1 City Hall Sq''])\<rparr>"

section \<open>Sequencing\<close>

lemma and_then_Inl [simp]: "and_then (Inl e) f = Inl e"
  by (simp add: and_then_def)

lemma and_then_Inr [simp]: "and_then (Inr x) f = f x"
  by (simp add: and_then_def)

lemma and_then_eq_Inr: "and_then m f = Inr y \<longleftrightarrow> (\<exists>x. m = Inr x \<and> f x = Inr y)"
  by (cases m) simp_all

section \<open>Extracting the destinations\<close>

lemma get_all_destinations_Inr:
  "get_all_destinations self records = Inr ds \<longleftrightarrow>
     map (\<lambda>r. r (address_key self)) records = map Some ds"
proof (induction records arbitrary: ds)
  case Nil
  then show ?case by auto
next
  case (Cons r records)
  show ?case
  proof (cases "r (address_key self)")
    case None
    then show ?thesis by (cases ds) auto
  next
    case (Some v)
    show ?thesis
    proof (cases "get_all_destinations self records")
      case (Inl e)
      have "\<And>vs. map (\<lambda>r. r (address_key self)) records \<noteq> map Some vs"
        using Cons.IH Inl by (metis sum.distinct(1))
      then show ?thesis using Some Inl by (cases ds) auto
    next
      case (Inr vs)
      then have "map (\<lambda>r. r (address_key self)) records = map Some vs"
        using Cons.IH by blast
      then show ?thesis using Some Inr by (cases ds) (auto simp: inj_on_def)
    qed
  qed
qed

lemma get_all_destinations_Inl:
  "get_all_destinations self records = Inl e \<Longrightarrow> e = KeyError (address_key self)"
  by (induction records arbitrary: e) (auto split: option.splits sum.splits)

text \<open>
  C7: when every record contains the address key, \<open>get_all_destinations\<close> returns the address
  values of the records, one per record and in the order of the records; when some record
  lacks the address key it raises \<open>KeyError\<close>, it does not skip the record.
\<close>

theorem get_all_destinations_projects_or_raises:
  "((\<forall>r \<in> set records. r (address_key self) \<noteq> None) \<longrightarrow>
      (\<exists>ds. get_all_destinations self records = Inr ds \<and> length ds = length records \<and>
            (\<forall>i < length records. (records ! i) (address_key self) = Some (ds ! i))))
   \<and> ((\<exists>r \<in> set records. r (address_key self) = None) \<longrightarrow>
      get_all_destinations self records = Inl (KeyError (address_key self)))"
proof (intro conjI impI)
  assume all: "\<forall>r \<in> set records. r (address_key self) \<noteq> None"
  define ds where "ds = map (\<lambda>r. the (r (address_key self))) records"
  have "map (\<lambda>r. r (address_key self)) records = map Some ds"
    using all by (simp add: ds_def)
  then have "get_all_destinations self records = Inr ds"
    by (simp add: get_all_destinations_Inr)
  moreover have "length ds = length records"
    by (simp add: ds_def)
  moreover have "\<forall>i < length records. (records ! i) (address_key self) = Some (ds ! i)"
    using all by (simp add: ds_def)
  ultimately show "\<exists>ds. get_all_destinations self records = Inr ds \<and> length ds = length records \<and>
            (\<forall>i < length records. (records ! i) (address_key self) = Some (ds ! i))"
    by blast
next
  assume ex: "\<exists>r \<in> set records. r (address_key self) = None"
  then obtain r where r: "r \<in> set records" "r (address_key self) = None"
    by blast
  show "get_all_destinations self records = Inl (KeyError (address_key self))"
  proof (cases "get_all_destinations self records")
    case (Inl e)
    then show ?thesis using get_all_destinations_Inl [of self records e] by simp
  next
    case (Inr ds)
    then have eq: "map (\<lambda>r. r (address_key self)) records = map Some ds"
      by (simp add: get_all_destinations_Inr)
    have "r (address_key self) \<in> set (map (\<lambda>r. r (address_key self)) records)"
      using r(1) by simp
    then have "r (address_key self) \<in> set (map Some ds)"
      by (simp only: eq)
    then show ?thesis using r(2) by auto
  qed
qed

theorem get_all_destinations_projects_or_raises_witness:
  "get_all_destinations (finder_ex ''{Address}'' (\<lambda>r. Inl TypeError))
     [[''Address'' \<mapsto> Str ''5 Main St''], [''Address'' \<mapsto> Str ''20 Main St'']]
     = Inr [Str ''5 Main St'', Str ''20 Main St''] \<and>
   get_all_destinations (finder_ex ''{Address}'' (\<lambda>r. Inl TypeError))
     [[''Address'' \<mapsto> Str ''5 Main St''], [''Name'' \<mapsto> Str ''City Hall'']]
     = Inl (KeyError ''Address'')"
  using get_all_destinations_projects_or_raises [of "[[''Address'' \<mapsto> Str ''5 Main St''], [''Address'' \<mapsto> Str ''20 Main St'']]"
               "finder_ex ''{Address}'' (\<lambda>r. Inl TypeError)"]
        get_all_destinations_projects_or_raises [of "[[''Address'' \<mapsto> Str ''5 Main St''], [''Name'' \<mapsto> Str ''City Hall'']]"
               "finder_ex ''{Address}'' (\<lambda>r. Inl TypeError)"]
  by simp

section \<open>Selecting the closest destination\<close>

text \<open>
  The loop invariant of \<open>min\<close>: the current item is the first among the items seen so far
  whose value is least; \<open>pre\<close> are the items seen and \<open>prev\<close> their values.
\<close>

lemma min_loop_first_min:
  assumes "map (\<lambda>d. d k) items = map (\<lambda>n. Some (Num n)) vs"
    and "length pre = length prev" and "p < length pre"
    and "\<forall>i < length prev. prev ! p \<le> prev ! i"
    and "\<forall>i < p. prev ! p < prev ! i"
  shows "\<exists>q < length (pre @ items).
           min_loop k (pre ! p) (Num (prev ! p)) items = Inr ((pre @ items) ! q) \<and>
           (\<forall>i < length (prev @ vs). (prev @ vs) ! q \<le> (prev @ vs) ! i) \<and>
           (\<forall>i < q. (prev @ vs) ! q < (prev @ vs) ! i)"
  using assms
proof (induction items arbitrary: vs pre prev p)
  case Nil
  then have "vs = []" by simp
  with Nil show ?case by auto
next
  case (Cons item items)
  from Cons.prems(1) obtain v vs' where vs: "vs = v # vs'" "item k = Some (Num v)"
    and rest: "map (\<lambda>d. d k) items = map (\<lambda>n. Some (Num n)) vs'"
    by (cases vs) auto
  let ?pre = "pre @ [item]" and ?prev = "prev @ [v]"
  have len: "length ?pre = length ?prev" using Cons.prems(2) by simp
  show ?case
  proof (cases "v < prev ! p")
    case True
    let ?p = "length pre"
    have a: "?p < length ?pre" by simp
    have b: "\<forall>i < length ?prev. ?prev ! ?p \<le> ?prev ! i"
    proof (intro allI impI)
      fix i assume "i < length ?prev"
      then consider "i < length prev" | "i = length prev" by force
      then show "?prev ! ?p \<le> ?prev ! i"
      proof cases
        case 1
        then have "prev ! p \<le> prev ! i" using Cons.prems(4) by blast
        then show ?thesis using 1 True Cons.prems(2) by (simp add: nth_append)
      next
        case 2
        then show ?thesis using Cons.prems(2) by simp
      qed
    qed
    have c: "\<forall>i < ?p. ?prev ! ?p < ?prev ! i"
    proof (intro allI impI)
      fix i assume i: "i < ?p"
      then have "prev ! p \<le> prev ! i" using Cons.prems(2,4) by simp
      then show "?prev ! ?p < ?prev ! i" using i True Cons.prems(2) by (simp add: nth_append)
    qed
    from Cons.IH [OF rest len a b c]
    obtain q where q: "q < length (?pre @ items)"
        "min_loop k (?pre ! ?p) (Num (?prev ! ?p)) items = Inr ((?pre @ items) ! q)"
        "\<forall>i < length (?prev @ vs'). (?prev @ vs') ! q \<le> (?prev @ vs') ! i"
        "\<forall>i < q. (?prev @ vs') ! q < (?prev @ vs') ! i"
      by blast
    have step: "min_loop k (pre ! p) (Num (prev ! p)) (item # items) =
                min_loop k item (Num v) items"
      using vs True by simp
    have "?pre ! ?p = item" by simp
    moreover have "?prev ! ?p = v" using Cons.prems(2) by simp
    ultimately have "?pre ! ?p = item" "?prev ! ?p = v" by blast+
    with q step show ?thesis using vs by (intro exI [of _ q]) simp
  next
    case False
    have a: "p < length ?pre" using Cons.prems(3) by simp
    have b: "\<forall>i < length ?prev. ?prev ! p \<le> ?prev ! i"
    proof (intro allI impI)
      fix i assume "i < length ?prev"
      then consider "i < length prev" | "i = length prev" by force
      then show "?prev ! p \<le> ?prev ! i"
      proof cases
        case 1
        then have "prev ! p \<le> prev ! i" using Cons.prems(4) by blast
        then show ?thesis using 1 Cons.prems(2,3) by (simp add: nth_append)
      next
        case 2
        then show ?thesis using False Cons.prems(2,3) by (simp add: nth_append)
      qed
    qed
    have c: "\<forall>i < p. ?prev ! p < ?prev ! i"
    proof (intro allI impI)
      fix i assume i: "i < p"
      then have "prev ! p < prev ! i" using Cons.prems(5) by blast
      then show "?prev ! p < ?prev ! i" using i Cons.prems(2,3) by (simp add: nth_append)
    qed
    from Cons.IH [OF rest len a b c]
    obtain q where q: "q < length (?pre @ items)"
        "min_loop k (?pre ! p) (Num (?prev ! p)) items = Inr ((?pre @ items) ! q)"
        "\<forall>i < length (?prev @ vs'). (?prev @ vs') ! q \<le> (?prev @ vs') ! i"
        "\<forall>i < q. (?prev @ vs') ! q < (?prev @ vs') ! i"
      by blast
    have step: "min_loop k (pre ! p) (Num (prev ! p)) (item # items) =
                min_loop k (pre ! p) (Num (prev ! p)) items"
      using vs False by simp
    have "?pre ! p = pre ! p" "?prev ! p = prev ! p"
      using Cons.prems(2,3) by (simp_all add: nth_append)
    with q step show ?thesis using vs by (intro exI [of _ q]) simp
  qed
qed

text \<open>
  C1: for a non-empty sequence of driving informations that all carry a numeric distance
  value (\<open>distances\<close>, in order), \<open>get_closest_destination\<close> returns an element whose
  distance is least among all, and every element before it has a strictly greater
  distance: among several elements with the least distance it is the first.
\<close>

theorem get_closest_destination_first_minimum:
  assumes "destination_dictionaries \<noteq> []"
    and "map (\<lambda>d. d (DRIVING_DISTANCE_VALUE_KEY env)) destination_dictionaries =
         map (\<lambda>n. Some (Num n)) distances"
  shows "\<exists>q < length destination_dictionaries.
           get_closest_destination env destination_dictionaries = Inr (destination_dictionaries ! q) \<and>
           (\<forall>i < length distances. distances ! q \<le> distances ! i) \<and>
           (\<forall>i < q. distances ! q < distances ! i)"
proof -
  from assms obtain item items v vs where
    ds: "destination_dictionaries = item # items" and vs: "distances = v # vs"
    and v: "item (DRIVING_DISTANCE_VALUE_KEY env) = Some (Num v)"
    and rest: "map (\<lambda>d. d (DRIVING_DISTANCE_VALUE_KEY env)) items = map (\<lambda>n. Some (Num n)) vs"
    by (cases destination_dictionaries; cases distances) auto
  have "\<exists>q < length ([item] @ items).
           min_loop (DRIVING_DISTANCE_VALUE_KEY env) ([item] ! 0) (Num ([v] ! 0)) items
             = Inr (([item] @ items) ! q) \<and>
           (\<forall>i < length ([v] @ vs). ([v] @ vs) ! q \<le> ([v] @ vs) ! i) \<and>
           (\<forall>i < q. ([v] @ vs) ! q < ([v] @ vs) ! i)"
    by (rule min_loop_first_min [OF rest]) simp_all
  then show ?thesis
    using ds vs v by (simp add: get_closest_destination_def)
qed

theorem get_closest_destination_first_minimum_witness:
  "[[''Address'' \<mapsto> Str ''5 Main St'', ''Driving distance'' \<mapsto> Num 1931],
    [''Address'' \<mapsto> Str ''20 Main St'', ''Driving distance'' \<mapsto> Num 644],
    [''Address'' \<mapsto> Str ''7 Elm St'', ''Driving distance'' \<mapsto> Num 644]] \<noteq> [] \<and>
   get_closest_destination (collaborators_ex [])
     [[''Address'' \<mapsto> Str ''5 Main St'', ''Driving distance'' \<mapsto> Num 1931],
      [''Address'' \<mapsto> Str ''20 Main St'', ''Driving distance'' \<mapsto> Num 644],
      [''Address'' \<mapsto> Str ''7 Elm St'', ''Driving distance'' \<mapsto> Num 644]]
     = Inr [''Address'' \<mapsto> Str ''20 Main St'', ''Driving distance'' \<mapsto> Num 644]"
proof -
  let ?ds = "[[''Address'' \<mapsto> Str ''5 Main St'', ''Driving distance'' \<mapsto> Num 1931],
      [''Address'' \<mapsto> Str ''20 Main St'', ''Driving distance'' \<mapsto> Num 644],
      [''Address'' \<mapsto> Str ''7 Elm St'', ''Driving distance'' \<mapsto> Num 644]]"
  let ?vs = "[1931, 644, 644 :: int]"
  have ne: "?ds \<noteq> []" by simp
  have vals: "map (\<lambda>d. d (DRIVING_DISTANCE_VALUE_KEY (collaborators_ex []))) ?ds =
              map (\<lambda>n. Some (Num n)) ?vs"
    by simp
  from get_closest_destination_first_minimum [OF ne vals] obtain q where q: "q < length ?ds"
      "get_closest_destination (collaborators_ex []) ?ds = Inr (?ds ! q)"
      "\<forall>i < length ?vs. ?vs ! q \<le> ?vs ! i" "\<forall>i < q. ?vs ! q < ?vs ! i"
    by blast
  have "q < 3" using q(1) by simp
  then consider "q = 0" | "q = 1" | "q = 2" by linarith
  then have "q = 1"
  proof cases
    case 1
    have "(1::nat) < length ?vs" by simp
    then have "?vs ! q \<le> ?vs ! 1" using q(3) by blast
    with 1 show ?thesis by simp
  next
    case 2
    then show ?thesis .
  next
    case 3
    then have "(1::nat) < q" by simp
    then have "?vs ! q < ?vs ! 1" using q(4) by blast
    with 3 show ?thesis by simp
  qed
  with q(2) show ?thesis by simp
qed

section \<open>Reconciling the closest destination with its record\<close>

lemma closest_record_first_match:
  assumes "i < length records"
    and "driving_info (address_key self) = Some a"
    and "(records ! i) (address_key self) = Some a"
    and "\<forall>j < i. \<exists>b. (records ! j) (address_key self) = Some b \<and> b \<noteq> a"
  shows "get_closest_record_with_driving_info self driving_info records =
           Inr (Some (records ! i ++ driving_info))"
  using assms
proof (induction records arbitrary: i)
  case Nil
  then show ?case by simp
next
  case (Cons r records)
  show ?case
  proof (cases i)
    case 0
    with Cons.prems show ?thesis by simp
  next
    case (Suc n)
    from Cons.prems(4) Suc obtain b where b: "r (address_key self) = Some b" "b \<noteq> a"
      by fastforce
    have "\<forall>j < n. \<exists>b. (records ! j) (address_key self) = Some b \<and> b \<noteq> a"
      using Cons.prems(4) Suc by fastforce
    moreover have "n < length records" "(records ! n) (address_key self) = Some a"
      using Cons.prems(1,3) Suc by simp_all
    ultimately have "get_closest_record_with_driving_info self driving_info records =
           Inr (Some (records ! n ++ driving_info))"
      using Cons.IH Cons.prems(2) by blast
    with b Cons.prems(2) Suc show ?thesis by simp
  qed
qed

text \<open>
  C2: when every record has an address field and some record has the driving
  information's address, the result is the first such record merged with the driving
  information: every field of the driving information is in the result with the driving
  information's value, and every other field is as in that record.
\<close>

theorem get_closest_record_merges_first_match:
  assumes "\<forall>r \<in> set records. r (address_key self) \<noteq> None"
    and "\<exists>r \<in> set records. r (address_key self) = driving_info (address_key self)"
  shows "\<exists>i merged.
           i < length records \<and>
           (records ! i) (address_key self) = driving_info (address_key self) \<and>
           (\<forall>j < i. (records ! j) (address_key self) \<noteq> driving_info (address_key self)) \<and>
           get_closest_record_with_driving_info self driving_info records = Inr (Some merged) \<and>
           (\<forall>field v. driving_info field = Some v \<longrightarrow> merged field = Some v) \<and>
           (\<forall>field. driving_info field = None \<longrightarrow> merged field = (records ! i) field)"
proof -
  let ?k = "address_key self"
  let ?P = "\<lambda>i. i < length records \<and> (records ! i) ?k = driving_info ?k"
  from assms(2) obtain r where r: "r \<in> set records" "r ?k = driving_info ?k"
    by blast
  from r(1) obtain i0 where "i0 < length records" "records ! i0 = r"
    by (auto simp: in_set_conv_nth)
  with r(2) have i0: "?P i0" by simp
  define i where "i = (LEAST i. ?P i)"
  have i: "?P i"
    unfolding i_def using i0 by (rule LeastI)
  have c1: "i < length records" and c2: "(records ! i) ?k = driving_info ?k"
    using i by simp_all
  have least: "\<not> ?P j" if "j < i" for j
    using that unfolding i_def by (rule not_less_Least)
  have c3: "\<forall>j < i. (records ! j) ?k \<noteq> driving_info ?k"
  proof (intro allI impI)
    fix j assume j: "j < i"
    then have "j < length records" using c1 by simp
    with least [OF j] show "(records ! j) ?k \<noteq> driving_info ?k" by simp
  qed
  have "records ! i \<in> set records" using c1 by simp
  then have "(records ! i) ?k \<noteq> None" using assms(1) by blast
  then obtain a where a2: "(records ! i) ?k = Some a" by blast
  with c2 have a1: "driving_info ?k = Some a" by simp
  have before: "\<forall>j < i. \<exists>b. (records ! j) ?k = Some b \<and> b \<noteq> a"
  proof (intro allI impI)
    fix j assume j: "j < i"
    then have "records ! j \<in> set records" using c1 by simp
    then have "(records ! j) ?k \<noteq> None" using assms(1) by blast
    then obtain b where b: "(records ! j) ?k = Some b" by blast
    moreover have "(records ! j) ?k \<noteq> driving_info ?k" using c3 j by blast
    ultimately have "b \<noteq> a" using a1 by simp
    with b show "\<exists>b. (records ! j) ?k = Some b \<and> b \<noteq> a" by blast
  qed
  have c4: "get_closest_record_with_driving_info self driving_info records =
           Inr (Some (records ! i ++ driving_info))"
    by (rule closest_record_first_match [where i = i and a = a and self = self
          and driving_info = driving_info and records = records, OF c1 a1 a2 before])
  have c5: "\<forall>field v. driving_info field = Some v \<longrightarrow> (records ! i ++ driving_info) field = Some v"
    by (simp add: map_add_def)
  have c6: "\<forall>field. driving_info field = None \<longrightarrow>
      (records ! i ++ driving_info) field = (records ! i) field"
    by (simp add: map_add_def)
  show ?thesis
    apply (rule exI [of _ i])
    apply (rule exI [of _ "records ! i ++ driving_info"])
    apply (intro conjI)
         apply (rule c1)
        apply (rule c2)
       apply (rule c3)
      apply (rule c4)
     apply (rule c5)
    apply (rule c6)
    done
qed

theorem get_closest_record_merges_first_match_witness:
  "\<exists>merged.
     get_closest_record_with_driving_info (finder_ex ''{Name}'' (\<lambda>r. Inl TypeError))
       [''Address'' \<mapsto> Str ''20 Main St'', ''Driving distance'' \<mapsto> Num 644, ''Name'' \<mapsto> Str ''from maps'']
       [[''Address'' \<mapsto> Str ''5 Main St'', ''Name'' \<mapsto> Str ''Library''],
        [''Address'' \<mapsto> Str ''20 Main St'', ''Name'' \<mapsto> Str ''City Hall'', ''Ward'' \<mapsto> Str ''3''],
        [''Address'' \<mapsto> Str ''20 Main St'', ''Name'' \<mapsto> Str ''Annex'']]
       = Inr (Some merged) \<and>
     merged ''Name'' = Some (Str ''from maps'') \<and>
     merged ''Driving distance'' = Some (Num 644) \<and>
     merged ''Address'' = Some (Str ''20 Main St'') \<and>
     merged ''Ward'' = Some (Str ''3'')"
proof -
  let ?self = "finder_ex ''{Name}'' (\<lambda>r. Inl TypeError)"
  let ?di = "[''Address'' \<mapsto> Str ''20 Main St'', ''Driving distance'' \<mapsto> Num 644, ''Name'' \<mapsto> Str ''from maps'']"
  let ?rs = "[[''Address'' \<mapsto> Str ''5 Main St'', ''Name'' \<mapsto> Str ''Library''],
        [''Address'' \<mapsto> Str ''20 Main St'', ''Name'' \<mapsto> Str ''City Hall'', ''Ward'' \<mapsto> Str ''3''],
        [''Address'' \<mapsto> Str ''20 Main St'', ''Name'' \<mapsto> Str ''Annex'']]"
  have h1: "\<forall>r \<in> set ?rs. r (address_key ?self) \<noteq> None" by simp
  have h2: "\<exists>r \<in> set ?rs. r (address_key ?self) = ?di (address_key ?self)" by simp
  from get_closest_record_merges_first_match [where records = "?rs" and driving_info = "?di"
      and self = "?self", OF h1 h2]
  obtain i merged where m:
    "i < length ?rs"
    "(?rs ! i) (address_key ?self) = ?di (address_key ?self)"
    "\<forall>j < i. (?rs ! j) (address_key ?self) \<noteq> ?di (address_key ?self)"
    "get_closest_record_with_driving_info ?self ?di ?rs = Inr (Some merged)"
    "\<forall>field v. ?di field = Some v \<longrightarrow> merged field = Some v"
    "\<forall>field. ?di field = None \<longrightarrow> merged field = (?rs ! i) field"
    by blast
  have "i < 3" using m(1) by simp
  then consider "i = 0" | "i = 1" | "i = 2" by linarith
  then have i: "i = 1"
  proof cases
    case 1
    with m(2) show ?thesis by simp
  next
    case 2
    then show ?thesis .
  next
    case 3
    then have "(1::nat) < i" by simp
    then have "(?rs ! 1) (address_key ?self) \<noteq> ?di (address_key ?self)" using m(3) by blast
    then show ?thesis by simp
  qed
  have "merged ''Name'' = Some (Str ''from maps'')"
    using m(5) by simp
  moreover have "merged ''Driving distance'' = Some (Num 644)"
    using m(5) by simp
  moreover have "merged ''Address'' = Some (Str ''20 Main St'')"
    using m(5) by simp
  moreover have "merged ''Ward'' = Some (Str ''3'')"
    using m(6) i by simp
  ultimately show ?thesis using m(4) by blast
qed

text \<open>
  C5: the driving information's address is \<open>20 Main St\<close> and the only record is at
  \<open>5 Main St\<close>. The loop ends without a match and the function returns \<open>None\<close>; it raises
  nothing.
\<close>

theorem get_closest_record_miss_returns_None:
  "get_closest_record_with_driving_info (finder_ex ''{Address}'' (\<lambda>r. Inl TypeError))
     [''Address'' \<mapsto> Str ''20 Main St'', ''Driving distance'' \<mapsto> Num 644]
     [[''Address'' \<mapsto> Str ''5 Main St'', ''Name'' \<mapsto> Str ''City Hall'']]
   = Inr None"
  by simp

subsection \<open>The arguments are left as they were\<close>

text \<open>
  What a call does to the store: nothing but the allocation of the result, if there is one.
\<close>

lemma obj_store:
  "get_closest_record_with_driving_info_obj self h driving_info records = (result, h') \<Longrightarrow>
     (\<forall>a. a \<noteq> next_free h \<longrightarrow> cells h' a = cells h a) \<and>
     (\<forall>p. result = Inr (Some p) \<longrightarrow> p = next_free h \<and> next_free h' = Suc (next_free h)) \<and>
     ((\<forall>p. result \<noteq> Inr (Some p)) \<longrightarrow> h' = h)"
proof (induction records)
  case Nil
  then show ?case by auto
next
  case (Cons r records)
  then show ?case
    by (auto simp: alloc_def split: option.splits if_splits)
qed

lemma obj_refines:
  "get_closest_record_with_driving_info_obj self h driving_info records = (result, h') \<Longrightarrow>
     get_closest_record_with_driving_info self (cells h driving_info) (map (cells h) records) =
       (case result of Inl e \<Rightarrow> Inl e | Inr None \<Rightarrow> Inr None | Inr (Some p) \<Rightarrow> Inr (Some (cells h' p)))"
proof (induction records)
  case Nil
  then show ?case by auto
next
  case (Cons r records)
  then show ?case
    by (auto simp: alloc_def split: option.splits if_splits)
qed

text \<open>
  C10: with the driving information and the records allocated before the call, their
  contents after the call are what they were before, as are the contents of every other
  object allocated before; a merged result is a new object, none of the arguments.
\<close>

theorem get_closest_record_obj_frame:
  assumes "driving_info < next_free h"
    and "\<forall>r \<in> set records. r < next_free h"
  shows "case get_closest_record_with_driving_info_obj self h driving_info records of
           (result, h') \<Rightarrow>
             cells h' driving_info = cells h driving_info \<and>
             (\<forall>r \<in> set records. cells h' r = cells h r) \<and>
             (\<forall>a < next_free h. cells h' a = cells h a) \<and>
             (\<forall>p. result = Inr (Some p) \<longrightarrow> p \<noteq> driving_info \<and> p \<notin> set records \<and> \<not> p < next_free h)"
proof -
  obtain result h' where eq:
    "get_closest_record_with_driving_info_obj self h driving_info records = (result, h')"
    by (cases "get_closest_record_with_driving_info_obj self h driving_info records")
  note st = obj_store [OF eq]
  have unchanged: "\<forall>a < next_free h. cells h' a = cells h a"
    using st by simp
  have "cells h' driving_info = cells h driving_info"
    using unchanged assms(1) by blast
  moreover have "\<forall>r \<in> set records. cells h' r = cells h r"
    using unchanged assms(2) by blast
  moreover have "\<forall>p. result = Inr (Some p) \<longrightarrow> p \<noteq> driving_info \<and> p \<notin> set records \<and> \<not> p < next_free h"
    using st assms by auto
  ultimately show ?thesis using eq unchanged by simp
qed

theorem get_closest_record_obj_frame_witness:
  "(0::nat) < next_free store_ex \<and>
   (case get_closest_record_with_driving_info_obj (finder_ex ''{Name}'' (\<lambda>r. Inl TypeError))
           store_ex 0 [1, 2] of
      (result, h') \<Rightarrow>
        result = Inr (Some 3) \<and>
        cells h' 0 = cells store_ex 0 \<and> cells h' 1 = cells store_ex 1 \<and>
        cells h' 2 = cells store_ex 2 \<and>
        cells h' 3 ''Name'' = Some (Str ''City Hall'') \<and>
        cells h' 3 ''Driving distance'' = Some (Num 644))"
  using get_closest_record_obj_frame [of 0 store_ex "[1, 2]" "finder_ex ''{Name}'' (\<lambda>r. Inl TypeError)"]
  by (simp add: alloc_def)

section \<open>Rendering the output speech\<close>

text \<open>
  A fault of a named field never ends in a stored apology: the handler itself raises. A
  call that returns has stored the formatted template.
\<close>

lemma set_output_speech_KeyError:
  "str_format (output_speech self) [] keys = Inl (KeyError k) \<Longrightarrow>
     set_output_speech self (Some keys) = Inl (NameError ''ERROR_MESSAGE'')"
  by (simp add: set_output_speech_def)

lemma set_output_speech_Inr:
  "set_output_speech self format_keys = Inr self' \<longleftrightarrow>
     (\<exists>keys s. format_keys = Some keys \<and> str_format (output_speech self) [] keys = Inr s \<and>
        self' = self\<lparr>output_speech := s\<rparr>)"
  by (auto simp: set_output_speech_def split: option.splits sum.splits error.splits)

text \<open>
  C3: the template refers to \<open>Name\<close>, which the merged record lacks. \<open>set_output_speech\<close>
  raises \<open>NameError\<close> to its caller; the stored speech is not set to the apology.
\<close>

theorem set_output_speech_missing_field_raises_NameError:
  "set_output_speech (finder_ex ''The closest polling place is {Name} at {Address}'' (\<lambda>r. Inl TypeError))
     (Some [''Address'' \<mapsto> Str ''20 Main St'', ''Driving distance'' \<mapsto> Num 644])
   = Inl (NameError ''ERROR_MESSAGE'')"
  by (simp add: set_output_speech_def str_format_def get_field_def get_integer_def is_digit_def
        emit_def py_str_def)

section \<open>The pipeline\<close>

text \<open>
  C4, as the code has it: when augmentation returns no records and the distance
  collaborator returns no driving information for no destinations, selecting the closest
  destination raises \<open>ValueError\<close>, and \<open>_start\<close> lets it pass to its caller.
\<close>

theorem Finder_start_empty_raises_ValueError:
  assumes "add_city_and_state_to_records env self [] = Inr []"
    and "get_driving_times_to_destinations env self [] = Inr []"
  shows "get_closest_destination env [] = Inl ValueError \<and> Finder_start env self [] = Inl ValueError"
  using assms by (simp add: Finder_start_def get_closest_destination_def)

theorem Finder_start_empty_raises_ValueError_witness:
  "add_city_and_state_to_records (collaborators_ex []) (finder_ex ''Go to {Name}'' (\<lambda>r. Inl TypeError)) [] = Inr [] \<and>
   get_driving_times_to_destinations (collaborators_ex []) (finder_ex ''Go to {Name}'' (\<lambda>r. Inl TypeError)) [] = Inr [] \<and>
   Finder_start (collaborators_ex []) (finder_ex ''Go to {Name}'' (\<lambda>r. Inl TypeError)) [] = Inl ValueError"
  using Finder_start_empty_raises_ValueError [of "collaborators_ex []" "finder_ex ''Go to {Name}'' (\<lambda>r. Inl TypeError)"]
  by (simp add: add_city_and_state_to_records_def get_driving_times_to_destinations_def)

text \<open>
  C4 as stated asks for a "no results" outcome on an empty record sequence. With
  collaborators that return one entry per record and per destination, \<open>_start\<close> on no
  records ends in the \<open>ValueError\<close> of \<open>min\<close> on an empty sequence.
\<close>

theorem Finder_start_no_records_counterexample:
  "Finder_start
     \<lparr>csv_add_city_and_state_to_records =
        (\<lambda>records key city state. Inr (map (\<lambda>r. r(''City'' \<mapsto> Str city, ''State'' \<mapsto> Str state)) records)),
      get_driving_info =
        (\<lambda>origin key destinations. Inr (map (\<lambda>d. [key \<mapsto> d, ''Driving distance'' \<mapsto> Num 644]) destinations)),
      DRIVING_DISTANCE_VALUE_KEY = ''Driving distance''\<rparr>
     (finder_ex ''Go to {Name}'' (\<lambda>r. Inr (Map.empty, r))) [] = Inl ValueError"
  by (simp add: Finder_start_def add_city_and_state_to_records_def
        get_driving_times_to_destinations_def get_closest_destination_def)

text \<open>
  The value that the preparation function returns has no part in the outcome of \<open>_start\<close>:
  two preparation functions that raise alike and leave their argument alike give the same
  speech, whatever they return.
\<close>

lemma get_all_destinations_formatter [simp]:
  "get_all_destinations (self\<lparr>field_formatter := prep\<rparr>) records = get_all_destinations self records"
  by (induction records) (simp_all split: option.splits sum.splits)

lemma get_closest_record_formatter [simp]:
  "get_closest_record_with_driving_info (self\<lparr>field_formatter := prep\<rparr>) driving_info records =
   get_closest_record_with_driving_info self driving_info records"
  by (induction records) (simp_all split: option.splits)

lemma map_sum_and_then:
  "map_sum id g (and_then m f) = and_then m (\<lambda>x. map_sum id g (f x))"
  by (cases m) simp_all

lemma Finder_start_ignores_returned_value:
  assumes "\<forall>r. map_sum id fst (prep1 r) = map_sum id fst (prep2 r)"
  shows "map_sum id get_output_speech (Finder_start env (self\<lparr>field_formatter := prep1\<rparr>) records0) =
         map_sum id get_output_speech (Finder_start env (self\<lparr>field_formatter := prep2\<rparr>) records0)"
proof -
  have key: "and_then (prep1 r) (\<lambda>x.
               map_sum id get_output_speech
                 (set_output_speech (self\<lparr>field_formatter := prep1\<rparr>) (map_option (\<lambda>b. fst x) r))) =
             and_then (prep2 r) (\<lambda>x.
               map_sum id get_output_speech
                 (set_output_speech (self\<lparr>field_formatter := prep2\<rparr>) (map_option (\<lambda>b. fst x) r)))"
    for r
    using assms [rule_format, of r]
    by (cases "prep1 r"; cases "prep2 r")
       (auto simp: set_output_speech_def get_output_speech_def
             split: option.splits sum.splits error.splits)
  show ?thesis
    by (simp add: Finder_start_def map_sum_and_then key add_city_and_state_to_records_def
          get_driving_times_to_destinations_def split_def)
qed

text \<open>
  C6: when the steps before it yield the merged record \<open>closest_record\<close>, \<open>_start\<close> first calls
  the preparation function on it; an exception of that call leaves \<open>_start\<close>; otherwise the
  speech template is formatted with the record as the preparation left it (\<open>prepared\<close>), and
  a template that formats to \<open>s\<close> on the prepared record makes \<open>s\<close> the stored speech.
\<close>

theorem Finder_start_formats_prepared_record:
  assumes "add_city_and_state_to_records env self fetched = Inr records"
    and "get_all_destinations self records = Inr destinations"
    and "get_driving_times_to_destinations env self destinations = Inr driving_times"
    and "get_closest_destination env driving_times = Inr closest_dest"
    and "get_closest_record_with_driving_info self closest_dest records = Inr (Some closest_record)"
  shows "(\<forall>e. field_formatter self (Some closest_record) = Inl e \<longrightarrow>
            Finder_start env self fetched = Inl e) \<and>
         (\<forall>prepared returned.
            field_formatter self (Some closest_record) = Inr (prepared, returned) \<longrightarrow>
              Finder_start env self fetched = set_output_speech self (Some prepared) \<and>
              (\<forall>s. str_format (output_speech self) [] prepared = Inr s \<longrightarrow>
                 Finder_start env self fetched = Inr (self\<lparr>output_speech := s\<rparr>)))"
  using assms by (simp add: Finder_start_def set_output_speech_def)

theorem Finder_start_formats_prepared_record_witness:
  "and_then
     (Finder_start
        (collaborators_ex
           [[''Address'' \<mapsto> Str ''5 Main St'', ''Driving distance'' \<mapsto> Num 1931],
            [''Address'' \<mapsto> Str ''20 Main St'', ''Driving distance'' \<mapsto> Num 644]])
        (finder_ex ''Go to {Name}''
           (\<lambda>r. case r of None \<Rightarrow> Inl TypeError
                 | Some d \<Rightarrow> Inr (d(''Name'' \<mapsto> Str ''City Hall''), None)))
        [[''Address'' \<mapsto> Str ''5 Main St'', ''Name'' \<mapsto> Str ''library''],
         [''Address'' \<mapsto> Str ''20 Main St'', ''Name'' \<mapsto> Str ''city hall'']])
     (\<lambda>self. Inr (get_output_speech self))
   = Inr ''Go to City Hall''"
proof -
  let ?env = "collaborators_ex
           [[''Address'' \<mapsto> Str ''5 Main St'', ''Driving distance'' \<mapsto> Num 1931],
            [''Address'' \<mapsto> Str ''20 Main St'', ''Driving distance'' \<mapsto> Num 644]]"
  let ?self = "finder_ex ''Go to {Name}''
           (\<lambda>r. case r of None \<Rightarrow> Inl TypeError
                 | Some d \<Rightarrow> Inr (d(''Name'' \<mapsto> Str ''City Hall''), None))"
  let ?rs = "[[''Address'' \<mapsto> Str ''5 Main St'', ''Name'' \<mapsto> Str ''library''],
         [''Address'' \<mapsto> Str ''20 Main St'', ''Name'' \<mapsto> Str ''city hall'']]"
  let ?closest = "[''Address'' \<mapsto> Str ''20 Main St'', ''Driving distance'' \<mapsto> Num 644]"
  let ?merged = "[''Address'' \<mapsto> Str ''20 Main St'', ''Name'' \<mapsto> Str ''city hall''] ++ ?closest"
  let ?prepared = "?merged(''Name'' \<mapsto> Str ''City Hall'')"
  have h1: "add_city_and_state_to_records ?env ?self ?rs = Inr ?rs"
    by (simp add: add_city_and_state_to_records_def)
  have h2: "get_all_destinations ?self ?rs = Inr [Str ''5 Main St'', Str ''20 Main St'']"
    by simp
  have h3: "get_driving_times_to_destinations ?env ?self [Str ''5 Main St'', Str ''20 Main St''] =
      Inr [[''Address'' \<mapsto> Str ''5 Main St'', ''Driving distance'' \<mapsto> Num 1931], ?closest]"
    by (simp add: get_driving_times_to_destinations_def)
  have h4: "get_closest_destination ?env
      [[''Address'' \<mapsto> Str ''5 Main St'', ''Driving distance'' \<mapsto> Num 1931], ?closest] = Inr ?closest"
    by (simp add: get_closest_destination_def)
  have h5: "get_closest_record_with_driving_info ?self ?closest ?rs = Inr (Some ?merged)"
    by simp
  have prep: "field_formatter ?self (Some ?merged) = Inr (?prepared, None)"
    by simp
  have fmt: "str_format (output_speech ?self) [] ?prepared = Inr ''Go to City Hall''"
    by (simp add: str_format_def get_field_def get_integer_def is_digit_def emit_def py_str_def)
  note inst = Finder_start_formats_prepared_record [where env = "?env" and self = "?self"
      and fetched = "?rs" and records = "?rs" and closest_dest = "?closest"
      and closest_record = "?merged", OF h1 h2 h3 h4 h5]
  have "Finder_start ?env ?self ?rs = Inr (?self\<lparr>output_speech := ''Go to City Hall''\<rparr>)"
    by (rule inst [THEN conjunct2, rule_format, OF prep, THEN conjunct2, rule_format, OF fmt])
  then show ?thesis by (simp add: get_output_speech_def)
qed

section \<open>The polling location intent\<close>

text \<open>
  C8: when the session holds the current address, the geocoder is asked about the stored
  address followed by \<open>, Boston, MA\<close> and about nothing else: an exception of the geocoder
  at that string is the outcome of the function, and the outcome is the same for every
  geocoder that answers that string alike. When the session lacks the key, the function
  raises \<open>KeyError\<close>, whatever the collaborators are; there is no default address.
\<close>

theorem get_polling_location_origin_address:
  "(\<forall>stored. session_attributes mycity_request (CURRENT_ADDRESS_KEY env) = Some stored \<longrightarrow>
      (\<forall>e. geocode_address_candidates env (stored @ '', Boston, MA'') = Inl e \<longrightarrow>
         get_polling_location env mycity_request = Inl e) \<and>
      (\<forall>geocoder.
         geocoder (stored @ '', Boston, MA'') =
           geocode_address_candidates env (stored @ '', Boston, MA'') \<longrightarrow>
         get_polling_location (env\<lparr>geocode_address_candidates := geocoder\<rparr>) mycity_request =
           get_polling_location env mycity_request)) \<and>
   (session_attributes mycity_request (CURRENT_ADDRESS_KEY env) = None \<longrightarrow>
      get_polling_location env mycity_request = Inl (KeyError (CURRENT_ADDRESS_KEY env)))"
  by (simp add: get_polling_location_def Let_def)

text \<open>
  A geocoder that knows the one address \<open>10 Main St, Boston, MA\<close> serves the request as well
  as one that knows every address; a geocoder that fails on that one address fails the
  request; a session without the key fails it with \<open>KeyError\<close>.
\<close>

theorem get_polling_location_origin_address_witness:
  "get_polling_location
     (voting_ex\<lparr>geocode_address_candidates :=
        (\<lambda>address. if address = ''10 Main St, Boston, MA'' then Inr address else Inl ValueError)\<rparr>)
     \<lparr>session_attributes = [''currentAddress'' \<mapsto> ''10 Main St'']\<rparr>
     = get_polling_location voting_ex \<lparr>session_attributes = [''currentAddress'' \<mapsto> ''10 Main St'']\<rparr> \<and>
   get_polling_location
     (voting_ex\<lparr>geocode_address_candidates :=
        (\<lambda>address. if address = ''10 Main St, Boston, MA'' then Inl IndexError else Inr address)\<rparr>)
     \<lparr>session_attributes = [''currentAddress'' \<mapsto> ''10 Main St'']\<rparr>
     = Inl IndexError \<and>
   get_polling_location voting_ex \<lparr>session_attributes = Map.empty\<rparr>
     = Inl (KeyError ''currentAddress'')"
proof -
  let ?req = "\<lparr>session_attributes = [''currentAddress'' \<mapsto> ''10 Main St'']\<rparr>"
  let ?strict = "\<lambda>address. if address = ''10 Main St, Boston, MA'' then Inr address
                            else Inl ValueError :: error + string"
  let ?failing = "\<lambda>address. if address = ''10 Main St, Boston, MA'' then Inl IndexError
                             else Inr address :: error + string"
  have key: "session_attributes ?req (CURRENT_ADDRESS_KEY voting_ex) = Some ''10 Main St''"
    by simp
  have key': "session_attributes ?req
      (CURRENT_ADDRESS_KEY (voting_ex\<lparr>geocode_address_candidates := ?failing\<rparr>)) = Some ''10 Main St''"
    by simp
  have agree: "?strict (''10 Main St'' @ '', Boston, MA'') =
      geocode_address_candidates voting_ex (''10 Main St'' @ '', Boston, MA'')"
    by simp
  have fails: "geocode_address_candidates (voting_ex\<lparr>geocode_address_candidates := ?failing\<rparr>)
      (''10 Main St'' @ '', Boston, MA'') = Inl IndexError"
    by simp
  have nokey: "session_attributes \<lparr>session_attributes = Map.empty\<rparr> (CURRENT_ADDRESS_KEY voting_ex) = None"
    by simp
  note present = get_polling_location_origin_address [of ?req voting_ex, THEN conjunct1,
      THEN spec [of _ "''10 Main St''"], THEN mp, OF key]
  note present' = get_polling_location_origin_address
      [of ?req "voting_ex\<lparr>geocode_address_candidates := ?failing\<rparr>", THEN conjunct1,
       THEN spec [of _ "''10 Main St''"], THEN mp, OF key']
  have "get_polling_location (voting_ex\<lparr>geocode_address_candidates := ?strict\<rparr>) ?req =
        get_polling_location voting_ex ?req"
    by (rule present [THEN conjunct2, THEN spec [of _ "?strict"], THEN mp, OF agree])
  moreover have "get_polling_location (voting_ex\<lparr>geocode_address_candidates := ?failing\<rparr>) ?req =
        Inl IndexError"
    by (rule present' [THEN conjunct1, THEN spec [of _ IndexError], THEN mp, OF fails])
  moreover have "get_polling_location voting_ex \<lparr>session_attributes = Map.empty\<rparr> =
        Inl (KeyError (CURRENT_ADDRESS_KEY voting_ex))"
    by (rule get_polling_location_origin_address
          [of "\<lparr>session_attributes = Map.empty\<rparr>" voting_ex, THEN conjunct2, THEN mp, OF nokey])
  ultimately show ?thesis by simp
qed

text \<open>
  C9: every response that \<open>get_polling_location\<close> returns has the reprompt text
  \<open>Voting Intent\<close>, the card title that the freshly constructed response had, and the
  session-end flag \<open>True\<close>.
\<close>

theorem get_polling_location_response_fields:
  "get_polling_location env mycity_request = Inr mycity_response \<Longrightarrow>
     reprompt_text mycity_response = Some ''Voting Intent'' \<and>
     card_title mycity_response = card_title (MyCityResponseDataModel env) \<and>
     should_end_session mycity_response = Some True"
  by (auto simp: get_polling_location_def Let_def and_then_eq_Inr CARD_TITLE_def
           split: option.splits)

theorem get_polling_location_response_fields_witness:
  "get_polling_location voting_ex \<lparr>session_attributes = [''currentAddress'' \<mapsto> ''10 Main St'']\<rparr>
     = Inr \<lparr>response_output_speech = Some ''Your polling location is City Hall at 1 City Hall Sq.'',
            reprompt_text = Some ''Voting Intent'', card_title = None,
            should_end_session = Some True\<rparr>"
proof -
  let ?r = "\<lparr>response_output_speech = Some ''Your polling location is City Hall at 1 City Hall Sq.'',
            reprompt_text = Some ''Voting Intent'', card_title = None,
            should_end_session = Some True\<rparr>"
  obtain r where r: "get_polling_location voting_ex
      \<lparr>session_attributes = [''currentAddress'' \<mapsto> ''10 Main St'']\<rparr> = Inr r"
    "response_output_speech r = Some ''Your polling location is City Hall at 1 City Hall Sq.''"
    by (simp add: get_polling_location_def Let_def subscript_def str_format_def get_field_def
          get_integer_def positional_def emit_def py_str_def)
  from get_polling_location_response_fields [OF r(1)] have "r = ?r" using r(2) by simp
  with r(1) show ?thesis by simp
qed

end
